theory Spec2Isabelle
  imports Complex_Main "HOL-Library.Sublist"
begin

section \<open>JavaScript numbers\<close>

text \<open>
  A JavaScript number is modelled as an exact real, or one of the three special values
  of IEEE arithmetic. Rounding to a double and overflow are not modelled, and there is
  no negative zero: every divisor in the program is an array length or a positive
  constant. What is modelled is where the special values come from and how they travel:
  \<open>0 / 0\<close> is \<open>NaN\<close>, \<open>x / 0\<close> is an infinity, and \<open>NaN\<close> passes through every
  operator, through \<open>Math.min\<close> and \<open>Math.max\<close>, and fails every comparison.
\<close>

datatype jsnum = Fin real | PosInf | NegInf | NaN

fun jsneg :: "jsnum \<Rightarrow> jsnum" where
  "jsneg (Fin x) = Fin (- x)"
| "jsneg PosInf = NegInf"
| "jsneg NegInf = PosInf"
| "jsneg NaN = NaN"

fun jsadd :: "jsnum \<Rightarrow> jsnum \<Rightarrow> jsnum" where
  "jsadd NaN b = NaN"
| "jsadd a NaN = NaN"
| "jsadd (Fin x) (Fin y) = Fin (x + y)"
| "jsadd PosInf NegInf = NaN"
| "jsadd NegInf PosInf = NaN"
| "jsadd PosInf b = PosInf"
| "jsadd a PosInf = PosInf"
| "jsadd NegInf b = NegInf"
| "jsadd a NegInf = NegInf"

definition jssub :: "jsnum \<Rightarrow> jsnum \<Rightarrow> jsnum" where
  "jssub a b = jsadd a (jsneg b)"

fun jsmul :: "jsnum \<Rightarrow> jsnum \<Rightarrow> jsnum" where
  "jsmul NaN b = NaN"
| "jsmul a NaN = NaN"
| "jsmul (Fin x) (Fin y) = Fin (x * y)"
| "jsmul PosInf (Fin y) = (if y = 0 then NaN else if 0 < y then PosInf else NegInf)"
| "jsmul NegInf (Fin y) = (if y = 0 then NaN else if 0 < y then NegInf else PosInf)"
| "jsmul (Fin x) PosInf = (if x = 0 then NaN else if 0 < x then PosInf else NegInf)"
| "jsmul (Fin x) NegInf = (if x = 0 then NaN else if 0 < x then NegInf else PosInf)"
| "jsmul PosInf PosInf = PosInf"
| "jsmul PosInf NegInf = NegInf"
| "jsmul NegInf PosInf = NegInf"
| "jsmul NegInf NegInf = PosInf"

fun jsdiv :: "jsnum \<Rightarrow> jsnum \<Rightarrow> jsnum" where
  "jsdiv NaN b = NaN"
| "jsdiv a NaN = NaN"
| "jsdiv (Fin x) (Fin y) =
     (if y \<noteq> 0 then Fin (x / y)
      else if x = 0 then NaN
      else if 0 < x then PosInf else NegInf)"
| "jsdiv (Fin x) PosInf = Fin 0"
| "jsdiv (Fin x) NegInf = Fin 0"
| "jsdiv PosInf (Fin y) = (if 0 \<le> y then PosInf else NegInf)"
| "jsdiv NegInf (Fin y) = (if 0 \<le> y then NegInf else PosInf)"
| "jsdiv PosInf b = NaN"
| "jsdiv NegInf b = NaN"

text \<open>The comparison operators: false as soon as one side is \<open>NaN\<close>.\<close>

fun jslt :: "jsnum \<Rightarrow> jsnum \<Rightarrow> bool" where
  "jslt NaN b = False"
| "jslt a NaN = False"
| "jslt (Fin x) (Fin y) = (x < y)"
| "jslt a NegInf = False"
| "jslt NegInf b = True"
| "jslt PosInf b = False"
| "jslt a PosInf = True"

definition jsle :: "jsnum \<Rightarrow> jsnum \<Rightarrow> bool" where
  "jsle a b = (a \<noteq> NaN \<and> b \<noteq> NaN \<and> (a = b \<or> jslt a b))"

definition jsgt :: "jsnum \<Rightarrow> jsnum \<Rightarrow> bool" where
  "jsgt a b = jslt b a"

definition jsge :: "jsnum \<Rightarrow> jsnum \<Rightarrow> bool" where
  "jsge a b = jsle b a"

text \<open>\<open>Math.min\<close> and \<open>Math.max\<close> of two arguments: \<open>NaN\<close> if either is.\<close>

definition mathMin :: "jsnum \<Rightarrow> jsnum \<Rightarrow> jsnum" where
  "mathMin a b = (if a = NaN \<or> b = NaN then NaN else if jsle a b then a else b)"

definition mathMax :: "jsnum \<Rightarrow> jsnum \<Rightarrow> jsnum" where
  "mathMax a b = (if a = NaN \<or> b = NaN then NaN else if jsle a b then b else a)"

text \<open>
  \<open>Math.pow(x, 1.5)\<close>, the only power of a possibly special value in the program: a
  negative base with a fractional exponent is \<open>NaN\<close>, and both infinities give
  \<open>+Infinity\<close>.
\<close>

fun mathPow_1_5 :: "jsnum \<Rightarrow> jsnum" where
  "mathPow_1_5 (Fin x) = (if x < 0 then NaN else Fin (x powr (3 / 2)))"
| "mathPow_1_5 PosInf = PosInf"
| "mathPow_1_5 NegInf = PosInf"
| "mathPow_1_5 NaN = NaN"

text \<open>\<open>Math.round\<close>: to the nearest integer, halves upwards.\<close>

fun mathRound :: "jsnum \<Rightarrow> jsnum" where
  "mathRound (Fin x) = Fin (of_int \<lfloor>x + 1 / 2\<rfloor>)"
| "mathRound a = a"

definition isUnit :: "jsnum \<Rightarrow> bool" where
  \<comment> \<open>a number within [0,1] inclusive\<close>
  "isUnit a = (case a of Fin x \<Rightarrow> 0 \<le> x \<and> x \<le> 1 | _ \<Rightarrow> False)"

section \<open>Strings\<close>

text \<open>
  A string is a list of characters and its \<open>length\<close> the length of the list. The
  character classes are the ASCII ones; the Unicode white space and letters that
  \<open>trim\<close>, \<open>\s\<close> and \<open>toLowerCase\<close> also know are not modelled.
\<close>

definition isDigit :: "char \<Rightarrow> bool" where
  "isDigit c = (c \<in> set ''0123456789'')"

definition isWordChar :: "char \<Rightarrow> bool" where
  \<comment> \<open>the class \<open>\w\<close>\<close>
  "isWordChar c =
     (c \<in> set ''abcdefghijklmnopqrstuvwxyzABCDEFGHIJKLMNOPQRSTUVWXYZ0123456789_'')"

definition isSpace :: "char \<Rightarrow> bool" where
  \<comment> \<open>the class \<open>\s\<close>, and what \<open>trim\<close> removes\<close>
  "isSpace c = (c \<in> set [CHR '' '', CHR 0x09, CHR 0x0A, CHR 0x0B, CHR 0x0C, CHR 0x0D])"

definition toLowerChar :: "char \<Rightarrow> char" where
  "toLowerChar c =
     (case map_of (zip ''ABCDEFGHIJKLMNOPQRSTUVWXYZ'' ''abcdefghijklmnopqrstuvwxyz'') c of
        Some l \<Rightarrow> l
      | None \<Rightarrow> c)"

definition toLowerCase :: "string \<Rightarrow> string" where
  "toLowerCase s = map toLowerChar s"

fun stringIncludes :: "string \<Rightarrow> string \<Rightarrow> bool" where
  \<comment> \<open>\<open>s.includes(sub)\<close>\<close>
  "stringIncludes [] sub = (sub = [])"
| "stringIncludes (c # cs) sub = (prefix sub (c # cs) \<or> stringIncludes cs sub)"

definition trim :: "string \<Rightarrow> string" where
  "trim s = rev (dropWhile isSpace (rev (dropWhile isSpace s)))"

definition isTerminator :: "char \<Rightarrow> bool" where
  \<comment> \<open>the class \<open>[.!?]\<close>\<close>
  "isTerminator c = (c \<in> set ''.!?'')"

text \<open>
  \<open>text.split(/[.!?]+/)\<close>: the pieces between the maximal runs of terminators, with an
  empty piece before a leading run and after a trailing one; a text with no terminator
  (the empty text too) is one piece. \<open>inRun\<close> says that the previous character was a
  terminator, \<open>cur\<close> holds the piece being read, reversed.
\<close>

fun splitRuns :: "bool \<Rightarrow> string \<Rightarrow> string \<Rightarrow> string list" where
  "splitRuns inRun cur [] = [rev cur]"
| "splitRuns inRun cur (c # cs) =
     (if isTerminator c
      then (if inRun then splitRuns True cur cs else rev cur # splitRuns True [] cs)
      else splitRuns False (c # cur) cs)"

definition splitSentences :: "string \<Rightarrow> string list" where
  \<comment> \<open>\<open>text.split(/[.!?]+/).filter(s => s.trim().length > 0)\<close>\<close>
  "splitSentences t = filter (\<lambda>s. length (trim s) > 0) (splitRuns False [] t)"

section \<open>Segmentation (route.ts, lines 26-42)\<close>

text \<open>
  The loop over the sentences, as a fold over the pair of \<open>textSegments\<close> and
  \<open>currentSegment\<close>. An empty string is falsy, so the separating space is added only
  to a non-empty segment and the last segment is pushed only when it is not empty.
\<close>

definition segmentStep :: "string list \<times> string \<Rightarrow> string \<Rightarrow> string list \<times> string" where
  "segmentStep st sentence =
     (case st of (textSegments, currentSegment) \<Rightarrow>
        if length currentSegment + length sentence > 200
        then (textSegments @ [currentSegment], sentence)
        else (textSegments,
              currentSegment @ (if currentSegment \<noteq> [] then '' '' else []) @ sentence))"

definition groupSentences :: "string list \<Rightarrow> string list" where
  "groupSentences sentences =
     (case foldl segmentStep ([], []) sentences of (textSegments, currentSegment) \<Rightarrow>
        if currentSegment \<noteq> [] then textSegments @ [currentSegment] else textSegments)"

definition textSegmentsOf :: "string \<Rightarrow> string list" where
  "textSegmentsOf t = groupSentences (splitSentences t)"

section \<open>The libraries\<close>

text \<open>
  The program calls two libraries that are not part of the repository, \<open>natural\<close>
  (\<open>WordTokenizer\<close>, \<open>PorterStemmer\<close>, \<open>TfIdf\<close>) and \<open>vader-sentiment\<close>. They
  are parameters of the model, and so is the number formatting of the language; a
  theorem about \<open>L\<close> holds for every instance.
  \<^item> \<open>tokenize\<close> is \<open>WordTokenizer.tokenize\<close> and \<open>stem\<close> is \<open>PorterStemmer.stem\<close>;
  \<^item> \<open>listTermsOfText\<close> is \<open>TfIdf.listTerms(0)\<close> after \<open>addDocument\<close> of a string,
    \<open>listTermsOfTokens\<close> the same after \<open>addDocument\<close> of a token array: the terms
    with their weights, heaviest first;
  \<^item> \<open>compound\<close> is the compound polarity of \<open>polarity_scores\<close>, a finite number;
  \<^item> \<open>numberToString\<close> is the conversion of a template literal and \<open>toFixed2\<close> is
    \<open>toFixed(2)\<close>.
\<close>

record env =
  tokenize :: "string \<Rightarrow> string list"
  stem :: "string \<Rightarrow> string"
  listTermsOfText :: "string \<Rightarrow> (string \<times> real) list"
  listTermsOfTokens :: "string list \<Rightarrow> (string \<times> real) list"
  compound :: "string \<Rightarrow> real"
  numberToString :: "jsnum \<Rightarrow> string"
  toFixed2 :: "jsnum \<Rightarrow> string"

datatype error = TypeError

section \<open>aiSimilarityScoring.ts\<close>

definition getAcademicWordList :: "string list" where
  "getAcademicWordList =
     [''analyze'', ''assess'', ''concept'', ''context'', ''contrast'', ''derive'', ''distribute'',
      ''environment'', ''establish'', ''estimate'', ''evaluate'', ''factor'', ''function'',
      ''identify'', ''interpret'', ''involve'', ''method'', ''occur'', ''principle'', ''proceed'',
      ''process'', ''require'', ''research'', ''respond'', ''significant'', ''similar'',
      ''specific'', ''structure'', ''theory'', ''variable'']"

definition connectorWords :: "string list" where
  "connectorWords =
     [''therefore'', ''however'', ''moreover'', ''consequently'', ''furthermore'',
      ''nevertheless'', ''thus'', ''hence'', ''accordingly'', ''besides'']"

text \<open>
  \<open>markovChain\<close> is an object literal used as a dictionary, so a lookup also finds the
  properties every object inherits. Under one of these names \<open>markovChain[currentToken]\<close>
  is a function (or the prototype object), which is truthy and has no \<open>push\<close>: the
  entry is not initialised and the call of \<open>push\<close> throws a \<open>TypeError\<close>.
\<close>

definition objectPrototypeKeys :: "string list" where
  "objectPrototypeKeys =
     [''constructor'', ''__proto__'', ''hasOwnProperty'', ''isPrototypeOf'',
      ''propertyIsEnumerable'', ''toLocaleString'', ''toString'', ''valueOf'',
      ''__defineGetter__'', ''__defineSetter__'', ''__lookupGetter__'', ''__lookupSetter__'']"

definition pushTransition ::
  "(string \<times> string list) list \<Rightarrow> string \<Rightarrow> string \<Rightarrow> (string \<times> string list) list" where
  "pushTransition markovChain currentToken nextToken =
     (case map_of markovChain currentToken of
        None \<Rightarrow> markovChain @ [(currentToken, [nextToken])]
      | Some nexts \<Rightarrow>
          map (\<lambda>(k, v). if k = currentToken then (k, v @ [nextToken]) else (k, v)) markovChain)"

fun buildMarkovChain ::
  "string list \<Rightarrow> (string \<times> string list) list \<Rightarrow> error + (string \<times> string list) list" where
  "buildMarkovChain (currentToken # nextToken # rest) markovChain =
     (if currentToken \<in> set objectPrototypeKeys then Inl TypeError
      else buildMarkovChain (nextToken # rest)
             (pushTransition markovChain currentToken nextToken))"
| "buildMarkovChain stemmedTokens markovChain = Inr markovChain"

definition averageTransitionOptions :: "(string \<times> string list) list \<Rightarrow> real" where
  "averageTransitionOptions markovChain =
     (let totalTransitionOptions = sum_list (map (\<lambda>(k, v). length (remdups v)) markovChain);
          tokenCount = length markovChain
      in if tokenCount > 0 then real totalTransitionOptions / real tokenCount else 0)"

definition stemmedTokensOf :: "env \<Rightarrow> string \<Rightarrow> string list" where
  \<comment> \<open>\<open>tokens.map(token => this.stemmer.stem(token.toLowerCase()))\<close>\<close>
  "stemmedTokensOf L t = map (\<lambda>token. stem L (toLowerCase token)) (tokenize L t)"

definition wordsInText :: "env \<Rightarrow> string list \<Rightarrow> string list \<Rightarrow> string list" where
  \<comment> \<open>\<open>stemmedTokens.filter(token => words.some(word => stem(word.toLowerCase()) === token))\<close>\<close>
  "wordsInText L wordList stemmedTokens =
     filter (\<lambda>token. list_ex (\<lambda>word. stem L (toLowerCase word) = token) wordList) stemmedTokens"

text \<open>
  The \<open>TfIdf\<close> object that \<open>calculateVocabularyComplexity\<close> builds is never read, and
  is left out.
\<close>

definition calculateVocabularyComplexity :: "env \<Rightarrow> string \<Rightarrow> error + jsnum" where
  "calculateVocabularyComplexity L t =
     (let tokens = tokenize L t;
          stemmedTokens = stemmedTokensOf L t;
          academicWordsInText = wordsInText L getAcademicWordList stemmedTokens;
          academicWordDensity =
            jsdiv (Fin (real (length academicWordsInText))) (Fin (real (length tokens)));
          connectorWordsInText = wordsInText L connectorWords stemmedTokens;
          connectorWordFrequency =
            jsdiv (Fin (real (length connectorWordsInText))) (Fin (real (length tokens)))
      in case buildMarkovChain stemmedTokens [] of
           Inl e \<Rightarrow> Inl e
         | Inr markovChain \<Rightarrow>
             (let normalizedTransitionScore = min (averageTransitionOptions markovChain / 5) 1
              in Inr (jsadd
                        (jsadd (jsmul academicWordDensity (Fin (4 / 10)))
                               (jsmul connectorWordFrequency (Fin (3 / 10))))
                        (jsmul (Fin normalizedTransitionScore) (Fin (3 / 10))))))"

definition calculateEmotionalFluctuation :: "env \<Rightarrow> string list \<Rightarrow> jsnum" where
  "calculateEmotionalFluctuation L textSegments =
     (if length textSegments < 2 then Fin 0
      else
        (let sentimentScores = map (compound L) textSegments;
             mean = sum_list sentimentScores / real (length sentimentScores);
             squaredDifferences = map (\<lambda>s. (s - mean)\<^sup>2) sentimentScores;
             variance = sum_list squaredDifferences / real (length sentimentScores);
             standardDeviation = sqrt variance
         in Fin (min (standardDeviation / (5 / 10)) 1)))"

definition segmentConceptsOf :: "env \<Rightarrow> string \<Rightarrow> string list" where
  \<comment> \<open>the top three terms of a segment\<close>
  "segmentConceptsOf L segment = map fst (take 3 (listTermsOfTokens L (stemmedTokensOf L segment)))"

definition jumpDistance :: "string list \<Rightarrow> string list \<Rightarrow> jsnum" where
  "jumpDistance currentConcepts nextConcepts =
     (let commonConcepts = filter (\<lambda>concept. concept \<in> set nextConcepts) currentConcepts;
          similarityScore =
            jsdiv (Fin (real (length commonConcepts)))
                  (Fin (real (max (length currentConcepts) (length nextConcepts))))
      in jssub (Fin 1) similarityScore)"

fun totalJumpDistance :: "string list list \<Rightarrow> jsnum \<Rightarrow> jsnum" where
  "totalJumpDistance (currentConcepts # nextConcepts # rest) soFar =
     totalJumpDistance (nextConcepts # rest)
       (jsadd soFar (jumpDistance currentConcepts nextConcepts))"
| "totalJumpDistance segmentConcepts soFar = soFar"

definition calculateCreativeDivergence :: "env \<Rightarrow> string list \<Rightarrow> jsnum" where
  "calculateCreativeDivergence L textSegments =
     (if length textSegments < 2 then Fin 0
      else
        (let segmentConcepts = map (segmentConceptsOf L) textSegments;
             averageJumpDistance =
               jsdiv (totalJumpDistance segmentConcepts (Fin 0))
                     (Fin (real (length segmentConcepts - 1)))
         in mathMin (jsmul averageJumpDistance (Fin (15 / 10))) (Fin 1)))"

definition invertAIScore :: "jsnum \<Rightarrow> jsnum" where
  "invertAIScore aiScore = jssub (Fin 1) (mathPow_1_5 aiScore)"

definition AISimilarityScoring_calculateOverallScore :: "jsnum \<Rightarrow> jsnum \<Rightarrow> jsnum \<Rightarrow> jsnum" where
  \<comment> \<open>\<open>calculateOverallScore\<close> of the class \<open>AISimilarityScoring\<close>\<close>
  "AISimilarityScoring_calculateOverallScore vocabularyComplexity emotionalFluctuation creativeDivergence =
     (let invertedVocabularyScore = invertAIScore vocabularyComplexity;
          invertedEmotionalScore = invertAIScore emotionalFluctuation;
          invertedCreativeScore = invertAIScore creativeDivergence
      in jsadd
           (jsadd (jsmul invertedVocabularyScore (Fin (3 / 10)))
                  (jsmul invertedEmotionalScore (Fin (4 / 10))))
           (jsmul invertedCreativeScore (Fin (3 / 10))))"

section \<open>semanticAnalysisEngine.ts\<close>

record TextStructure =
  lexicalDiversity :: jsnum
  avgSentenceLength :: jsnum
  keyTerms :: "(string \<times> real) list"
  tokenCount :: nat
  sentenceCount :: nat

definition analyzeTextStructure :: "env \<Rightarrow> string \<Rightarrow> TextStructure" where
  "analyzeTextStructure L t =
     (let tokens = tokenize L t;
          uniqueTokens = remdups (map (\<lambda>token. stem L (toLowerCase token)) tokens);
          sentences = splitSentences t
      in \<lparr> lexicalDiversity =
             jsdiv (Fin (real (length uniqueTokens))) (Fin (real (length tokens))),
           avgSentenceLength =
             jsdiv (Fin (real (length tokens))) (Fin (real (length sentences))),
           keyTerms = take 5 (listTermsOfText L t),
           tokenCount = length tokens,
           sentenceCount = length sentences \<rparr>)"

section \<open>Regular expressions\<close>

text \<open>
  A backtracking matcher: a pattern maps a position in the input, given as the
  character before it (\<open>None\<close> at the start) and the rest of the input, to the
  positions where a match of the pattern from there can end. \<open>regexTest\<close> is
  \<open>RegExp.prototype.test\<close> of a pattern without flags: a match from some position.
\<close>

type_synonym position = "char option \<times> string"
type_synonym regex = "position \<Rightarrow> position list"

definition rchar :: "(char \<Rightarrow> bool) \<Rightarrow> regex" where
  \<comment> \<open>one character of a class\<close>
  "rchar P pos =
     (case snd pos of [] \<Rightarrow> [] | c # cs \<Rightarrow> if P c then [(Some c, cs)] else [])"

definition rseq :: "regex \<Rightarrow> regex \<Rightarrow> regex" where
  "rseq r1 r2 pos = concat (map r2 (r1 pos))"

fun rrep :: "nat \<Rightarrow> nat \<Rightarrow> regex \<Rightarrow> regex" where
  \<comment> \<open>\<open>r{lo,hi}\<close>, the longer matches first\<close>
  "rrep 0 0 r pos = [pos]"
| "rrep 0 (Suc hi) r pos = concat (map (rrep 0 hi r) (r pos)) @ [pos]"
| "rrep (Suc lo) 0 r pos = []"
| "rrep (Suc lo) (Suc hi) r pos = concat (map (rrep lo hi r) (r pos))"

definition wordBoundary :: regex where
  \<comment> \<open>\<open>\b\<close>: a word character on exactly one side\<close>
  "wordBoundary pos =
     (let wordBefore = (case fst pos of None \<Rightarrow> False | Some c \<Rightarrow> isWordChar c);
          wordAfter = (case snd pos of [] \<Rightarrow> False | c # cs \<Rightarrow> isWordChar c)
      in if wordBefore \<noteq> wordAfter then [pos] else [])"

fun regexSearch :: "regex \<Rightarrow> char option \<Rightarrow> string \<Rightarrow> bool" where
  "regexSearch r prev [] = (r (prev, []) \<noteq> [])"
| "regexSearch r prev (c # cs) = (r (prev, c # cs) \<noteq> [] \<or> regexSearch r (Some c) cs)"

definition regexTest :: "regex \<Rightarrow> string \<Rightarrow> bool" where
  "regexTest r s = regexSearch r None s"

definition isDateSeparator :: "char \<Rightarrow> bool" where
  \<comment> \<open>the class \<open>[\/\.-]\<close>\<close>
  "isDateSeparator c = (c \<in> set ''/.-'')"

section \<open>innovationFeatureMatrix.ts\<close>

record FeatureResult =
  score :: jsnum
  analysis :: string
  humanVsAI :: string

text \<open>A promise, once settled. The reason of a rejection is only logged.\<close>

datatype 'a settled = Fulfilled 'a | Rejected

text \<open>
  What \<open>grok.chat\<close> resolves to, as far as the program reads it: the \<open>message.content\<close>
  of each of the \<open>choices\<close>, \<open>None\<close> for a content that is null. A response with no
  usable first choice is the empty list: reading \<open>choices[0].message.content\<close> then
  throws, inside the \<open>try\<close> block. The request (the rubric prompt, the text, temperature
  0.3 and 250 tokens) is not modelled: each judge takes the outcome of its call.
\<close>

type_synonym GrokCompletionResponse = "string option list"

definition isScoreChar :: "char \<Rightarrow> bool" where
  \<comment> \<open>the class \<open>[0-9.]\<close>\<close>
  "isScoreChar c = (c \<in> set ''0123456789.'')"

text \<open>
  \<open>analysisText.match(/score:?\s*([0-9.]+)/i)\<close>, the first capture group of the
  leftmost match. The classes of the colon, of white space and of the capture do not
  overlap, so from a given start there is at most one way to match: the word, the colon
  if there is one, all the white space, and the longest run of digits and dots, which
  must not be empty.
\<close>

definition scoreMatchAt :: "string \<Rightarrow> string option" where
  "scoreMatchAt s =
     (if toLowerCase (take 5 s) = ''score''
      then
        (let afterWord = drop 5 s;
             afterColon = (case afterWord of [] \<Rightarrow> [] | c # cs \<Rightarrow> if c = CHR '':'' then cs else c # cs);
             captured = takeWhile isScoreChar (dropWhile isSpace afterColon)
         in if captured = [] then None else Some captured)
      else None)"

fun scoreMatch :: "string \<Rightarrow> string option" where
  "scoreMatch [] = None"
| "scoreMatch (c # cs) =
     (case scoreMatchAt (c # cs) of Some captured \<Rightarrow> Some captured | None \<Rightarrow> scoreMatch cs)"

definition digitsValue :: "string \<Rightarrow> nat" where
  "digitsValue ds = foldl (\<lambda>n c. 10 * n + (of_char c - of_char (CHR ''0''))) 0 ds"

text \<open>
  \<open>parseFloat\<close> on a string of digits and dots, which is all the capture group can
  hold: the longest prefix that is a decimal literal, \<open>NaN\<close> when that prefix has no
  digit (the string starts with a dot that no digit follows).
\<close>

definition parseFloat :: "string \<Rightarrow> jsnum" where
  "parseFloat s =
     (let intDigits = takeWhile isDigit s;
          afterInt = dropWhile isDigit s;
          fracDigits =
            (case afterInt of [] \<Rightarrow> []
             | c # cs \<Rightarrow> if c = CHR ''.'' then takeWhile isDigit cs else [])
      in if intDigits = [] \<and> fracDigits = [] then NaN
         else Fin (real (digitsValue intDigits)
                   + real (digitsValue fracDigits) / 10 ^ length fracDigits))"

definition scoreOfAnalysis :: "string \<Rightarrow> jsnum" where
  \<comment> \<open>the score a judge reads out of the reply, and its clamp\<close>
  "scoreOfAnalysis analysisText =
     (let parsed = (case scoreMatch analysisText of
                      Some captured \<Rightarrow> parseFloat captured
                    | None \<Rightarrow> Fin (5 / 10))
      in mathMin (mathMax parsed (Fin 0)) (Fin 1))"

definition fallbackResult :: "string \<Rightarrow> string \<Rightarrow> FeatureResult" where
  "fallbackResult dimension rubric =
     \<lparr> score = Fin (5 / 10), analysis = ''Error analyzing '' @ dimension, humanVsAI = rubric \<rparr>"

text \<open>
  The five judges that call the language model are the same function up to three
  strings: the prompt, the name of the dimension in the error text, and the rubric
  returned as \<open>humanVsAI\<close>. The whole body is inside \<open>try\<close>, so the promise they return
  is always fulfilled.
\<close>

definition judgeWithGrok ::
  "string \<Rightarrow> string \<Rightarrow> GrokCompletionResponse settled \<Rightarrow> FeatureResult settled" where
  "judgeWithGrok dimension rubric outcome =
     (case outcome of
        Rejected \<Rightarrow> Fulfilled (fallbackResult dimension rubric)
      | Fulfilled choices \<Rightarrow>
          (case choices of
             [] \<Rightarrow> Fulfilled (fallbackResult dimension rubric)
           | content # others \<Rightarrow>
               (let analysisText = (case content of None \<Rightarrow> [] | Some c \<Rightarrow> c)
                in Fulfilled \<lparr> score = scoreOfAnalysis analysisText,
                               analysis = analysisText,
                               humanVsAI = rubric \<rparr>)))"

definition semanticElasticityRubric :: string where
  "semanticElasticityRubric =
     ''Human: topic natural transitions, acknowledges knowledge gaps'' @ [CHR 0x0A]
     @ ''AI: rigid logical structure, overuses transition phrases''"

definition emotionalExpressionRubric :: string where
  "emotionalExpressionRubric =
     ''Human: micro-emotional fluctuations, asymmetric responses'' @ [CHR 0x0A]
     @ ''AI: flat emotional tone, excessive political correctness''"

definition referenceAbilityRubric :: string where
  "referenceAbilityRubric =
     ''Human: concrete examples, idiosyncratic details'' @ [CHR 0x0A]
     @ ''AI: generic examples, references to studies''"

definition ambiguityHandlingRubric :: string where
  "ambiguityHandlingRubric =
     ''Human: temporary contradictions, self-correction'' @ [CHR 0x0A]
     @ ''AI: forced consistency, avoidance of uncertainty''"

definition creativeThinkingRubric :: string where
  "creativeThinkingRubric =
     ''Human: cross-domain analogies, imperfect but novel ideas'' @ [CHR 0x0A]
     @ ''AI: pattern-based innovation, formulaic creativity''"

definition timePerceptionRubric :: string where
  "timePerceptionRubric =
     ''Human: reasonable delays, vague time references'' @ [CHR 0x0A]
     @ ''AI: instant responses, precise time references''"

definition analyzeSemanticElasticity ::
  "GrokCompletionResponse settled \<Rightarrow> FeatureResult settled" where
  "analyzeSemanticElasticity = judgeWithGrok ''semantic elasticity'' semanticElasticityRubric"

definition analyzeEmotionalExpression ::
  "GrokCompletionResponse settled \<Rightarrow> FeatureResult settled" where
  "analyzeEmotionalExpression = judgeWithGrok ''emotional expression'' emotionalExpressionRubric"

definition analyzeReferenceAbility ::
  "GrokCompletionResponse settled \<Rightarrow> FeatureResult settled" where
  "analyzeReferenceAbility = judgeWithGrok ''reference ability'' referenceAbilityRubric"

definition analyzeAmbiguityHandling ::
  "GrokCompletionResponse settled \<Rightarrow> FeatureResult settled" where
  "analyzeAmbiguityHandling = judgeWithGrok ''ambiguity handling'' ambiguityHandlingRubric"

definition analyzeCreativeThinking ::
  "GrokCompletionResponse settled \<Rightarrow> FeatureResult settled" where
  "analyzeCreativeThinking = judgeWithGrok ''creative thinking'' creativeThinkingRubric"

definition averageDelay :: "jsnum list \<Rightarrow> jsnum" where
  \<comment> \<open>\<open>avgDelay\<close>: \<open>reduce\<close> adds from the left, starting at 0\<close>
  "averageDelay responseDelays =
     (if length responseDelays > 0
      then jsdiv (foldl jsadd (Fin 0) responseDelays) (Fin (real (length responseDelays)))
      else Fin 0)"

definition timeExpressions :: "string list" where
  "timeExpressions =
     [''recently'', ''lately'', ''the other day'', ''last week'', ''a while ago'',
      ''a few days ago'', ''some time ago'', ''earlier'', ''previously'']"

definition hasVagueTimeReferences :: "string \<Rightarrow> bool" where
  "hasVagueTimeReferences t =
     list_ex (\<lambda>expr. stringIncludes (toLowerCase t) expr) timeExpressions"

definition preciseDatePattern :: regex where
  \<comment> \<open>\<open>/\b\d{1,2}[\/\.-]\d{1,2}[\/\.-]\d{2,4}\b/\<close>\<close>
  "preciseDatePattern =
     rseq wordBoundary
       (rseq (rrep 1 2 (rchar isDigit))
          (rseq (rchar isDateSeparator)
             (rseq (rrep 1 2 (rchar isDigit))
                (rseq (rchar isDateSeparator)
                   (rseq (rrep 2 4 (rchar isDigit)) wordBoundary)))))"

definition preciseTimePattern :: regex where
  \<comment> \<open>\<open>/\b\d{1,2}:\d{2}\b/\<close>\<close>
  "preciseTimePattern =
     rseq wordBoundary
       (rseq (rrep 1 2 (rchar isDigit))
          (rseq (rchar (\<lambda>c. c = CHR '':''))
             (rseq (rrep 2 2 (rchar isDigit)) wordBoundary)))"

definition hasPreciseTimeReferences :: "string \<Rightarrow> bool" where
  "hasPreciseTimeReferences t =
     (regexTest preciseDatePattern t \<or> regexTest preciseTimePattern t)"

text \<open>
  The score of \<open>analyzeTimePerception\<close> (lines 350-369). The average delay can be a
  special value; the score itself is built from constants only and is a real.
\<close>

definition timePerceptionRawScore :: "string \<Rightarrow> jsnum list \<Rightarrow> real" where
  \<comment> \<open>\<open>score\<close> before line 369\<close>
  "timePerceptionRawScore t responseDelays =
     (let avgDelay = averageDelay responseDelays;
          s0 = 5 / 10;
          s1 = (if jsge avgDelay (Fin 1200) \<and> jsle avgDelay (Fin 3400) then s0 + 2 / 10
                else if jslt avgDelay (Fin 500) then s0 - 2 / 10
                else s0);
          s2 = (if hasVagueTimeReferences t then s1 + 15 / 100 else s1);
          s3 = (if hasPreciseTimeReferences t then s2 - 15 / 100 else s2)
      in s3)"

definition timePerceptionScore :: "string \<Rightarrow> jsnum list \<Rightarrow> real" where
  \<comment> \<open>\<open>Math.min(Math.max(score, 0), 1)\<close>\<close>
  "timePerceptionScore t responseDelays = min (max (timePerceptionRawScore t responseDelays) 0) 1"

definition yesNo :: "bool \<Rightarrow> string" where
  "yesNo b = (if b then ''Yes'' else ''No'')"

text \<open>
  \<open>analyzeTimePerception\<close> has no \<open>try\<close> block and nothing in it throws on a string and
  an array of numbers. The tokens it computes are not used.
\<close>

definition analyzeTimePerception :: "env \<Rightarrow> string \<Rightarrow> jsnum list \<Rightarrow> FeatureResult settled" where
  "analyzeTimePerception L t responseDelays =
     (let avgDelay = averageDelay responseDelays;
          s = timePerceptionScore t responseDelays
      in Fulfilled
           \<lparr> score = Fin s,
             analysis =
               ''Time perception analysis:'' @ [CHR 0x0A]
               @ ''- Average response delay: '' @ numberToString L (mathRound avgDelay)
               @ ''ms'' @ [CHR 0x0A]
               @ ''- Uses vague time references: '' @ yesNo (hasVagueTimeReferences t)
               @ [CHR 0x0A]
               @ ''- Uses precise time references: '' @ yesNo (hasPreciseTimeReferences t)
               @ [CHR 0x0A]
               @ ''- Overall time perception score: '' @ toFixed2 L (Fin s) @ [CHR 0x0A]
               @ (if s > 7 / 10 then ''The text shows human-like time perception patterns.''
                  else if s < 3 / 10 then ''The text shows AI-like time perception patterns.''
                  else ''The text shows mixed time perception patterns.''),
             humanVsAI = timePerceptionRubric \<rparr>)"

definition InnovationFeatureMatrix_calculateOverallScore ::
  "jsnum \<Rightarrow> jsnum \<Rightarrow> jsnum \<Rightarrow> jsnum \<Rightarrow> jsnum \<Rightarrow> jsnum \<Rightarrow> jsnum" where
  \<comment> \<open>\<open>calculateOverallScore\<close> of the class \<open>InnovationFeatureMatrix\<close>; the arguments are
      the six fields of \<open>scores\<close>, in the order of the sum\<close>
  "InnovationFeatureMatrix_calculateOverallScore semanticElasticityScore
       emotionalExpressionScore referenceAbilityScore ambiguityHandlingScore
       creativeThinkingScore timePerceptionScoreValue =
     jsadd
       (jsadd
          (jsadd
             (jsadd
                (jsadd (jsmul semanticElasticityScore (Fin (2 / 10)))
                       (jsmul emotionalExpressionScore (Fin (2 / 10))))
                (jsmul referenceAbilityScore (Fin (15 / 100))))
             (jsmul ambiguityHandlingScore (Fin (15 / 100))))
          (jsmul creativeThinkingScore (Fin (15 / 100))))
       (jsmul timePerceptionScoreValue (Fin (15 / 100)))"

section \<open>api/analyze/route.ts\<close>

record AISimilarity =
  vocabularyComplexity :: jsnum
  emotionalFluctuation :: jsnum
  creativeDivergence :: jsnum
  overallScore :: jsnum

record InnovationFeatures =
  semanticElasticity :: FeatureResult
  emotionalExpression :: FeatureResult
  referenceAbility :: FeatureResult
  ambiguityHandling :: FeatureResult
  creativeThinking :: FeatureResult
  timePerception :: FeatureResult
  overallScore :: jsnum

datatype label = Human | AI | Ambiguous

record AnalysisReport =
  textStructure :: TextStructure
  aiSimilarity :: AISimilarity
  innovationFeatures :: InnovationFeatures
  overallHumanLikenessScore :: jsnum
  classification :: label

text \<open>
  The body of the request, after \<open>request.json()\<close>: \<open>None\<close> is a field that is absent
  or null. Values of another type than the interface declares are outside the model.
\<close>

record AnalyzeRequest =
  requestText :: "string option"
  responseDelays :: "jsnum list option"
  sessionId :: "string option"

text \<open>The outcome of the call of \<open>grok.chat\<close> that each of the five judges makes.\<close>

record GrokOutcomes =
  semanticElasticityCall :: "GrokCompletionResponse settled"
  emotionalExpressionCall :: "GrokCompletionResponse settled"
  referenceAbilityCall :: "GrokCompletionResponse settled"
  ambiguityHandlingCall :: "GrokCompletionResponse settled"
  creativeThinkingCall :: "GrokCompletionResponse settled"

datatype response =
    BadRequest string
  | ServerError string
  | Ok (report: AnalysisReport)

definition catch :: "'a settled \<Rightarrow> 'a \<Rightarrow> 'a" where
  \<comment> \<open>\<open>promise.catch(error => fallback)\<close>, awaited\<close>
  "catch promise fallback = (case promise of Fulfilled v \<Rightarrow> v | Rejected \<Rightarrow> fallback)"

definition combineScores :: "jsnum \<Rightarrow> jsnum \<Rightarrow> jsnum" where
  \<comment> \<open>lines 104-107\<close>
  "combineScores aiSimilarityScore innovationFeatureScore =
     jsadd (jsmul aiSimilarityScore (Fin (4 / 10))) (jsmul innovationFeatureScore (Fin (6 / 10)))"

definition classify :: "jsnum \<Rightarrow> label" where
  \<comment> \<open>lines 110-117\<close>
  "classify overall =
     (if jsge overall (Fin (7 / 10)) then Human
      else if jsle overall (Fin (3 / 10)) then AI
      else Ambiguous)"

text \<open>
  The handler. Storing the result (lines 119-174) has its own \<open>try\<close> block and no effect
  on the response, and is left out. The only exception that reaches the outer \<open>catch\<close>
  is the \<open>TypeError\<close> of \<open>calculateVocabularyComplexity\<close>.
\<close>

definition POST :: "env \<Rightarrow> GrokOutcomes \<Rightarrow> AnalyzeRequest \<Rightarrow> response" where
  "POST L grok request =
     (case requestText request of
        None \<Rightarrow> BadRequest ''Text is required''
      | Some t \<Rightarrow>
          if t = [] then BadRequest ''Text is required''
          else
            (let textSegments = textSegmentsOf t;
                 structure = analyzeTextStructure L t
             in case calculateVocabularyComplexity L t of
                  Inl e \<Rightarrow> ServerError ''Failed to analyze text''
                | Inr vocabulary \<Rightarrow>
                    (let emotional = calculateEmotionalFluctuation L textSegments;
                         creative = calculateCreativeDivergence L textSegments;
                         aiSimilarityScore =
                           AISimilarityScoring_calculateOverallScore vocabulary emotional creative;
                         semanticElasticityResult =
                           catch (analyzeSemanticElasticity (semanticElasticityCall grok))
                             (fallbackResult ''semantic elasticity'' semanticElasticityRubric);
                         emotionalExpressionResult =
                           catch (analyzeEmotionalExpression (emotionalExpressionCall grok))
                             (fallbackResult ''emotional expression'' emotionalExpressionRubric);
                         referenceAbilityResult =
                           catch (analyzeReferenceAbility (referenceAbilityCall grok))
                             (fallbackResult ''reference ability'' referenceAbilityRubric);
                         ambiguityHandlingResult =
                           catch (analyzeAmbiguityHandling (ambiguityHandlingCall grok))
                             (fallbackResult ''ambiguity handling'' ambiguityHandlingRubric);
                         creativeThinkingResult =
                           catch (analyzeCreativeThinking (creativeThinkingCall grok))
                             (fallbackResult ''creative thinking'' creativeThinkingRubric);
                         timePerceptionResult =
                           catch (analyzeTimePerception L t
                                    (case responseDelays request of None \<Rightarrow> [] | Some ds \<Rightarrow> ds))
                             (fallbackResult ''time perception'' timePerceptionRubric);
                         innovationFeatureScore =
                           InnovationFeatureMatrix_calculateOverallScore
                             (score semanticElasticityResult)
                             (score emotionalExpressionResult)
                             (score referenceAbilityResult)
                             (score ambiguityHandlingResult)
                             (score creativeThinkingResult)
                             (score timePerceptionResult);
                         overall = combineScores aiSimilarityScore innovationFeatureScore
                     in Ok \<lparr> textStructure = structure,
                             aiSimilarity =
                               \<lparr> vocabularyComplexity = vocabulary,
                                 emotionalFluctuation = emotional,
                                 creativeDivergence = creative,
                                 AISimilarity.overallScore = aiSimilarityScore \<rparr>,
                             innovationFeatures =
                               \<lparr> semanticElasticity = semanticElasticityResult,
                                 emotionalExpression = emotionalExpressionResult,
                                 referenceAbility = referenceAbilityResult,
                                 ambiguityHandling = ambiguityHandlingResult,
                                 creativeThinking = creativeThinkingResult,
                                 timePerception = timePerceptionResult,
                                 InnovationFeatures.overallScore = innovationFeatureScore \<rparr>,
                             overallHumanLikenessScore = overall,
                             classification = classify overall \<rparr>)))"

definition featureResults :: "AnalysisReport \<Rightarrow> FeatureResult list" where
  \<comment> \<open>the six feature results of a report, in the order of the dimensions\<close>
  "featureResults r =
     (let f = innovationFeatures r
      in [semanticElasticity f, emotionalExpression f, referenceAbility f,
          ambiguityHandling f, creativeThinking f, timePerception f])"

section \<open>An instance of the libraries\<close>

text \<open>
  To evaluate the definitions on concrete inputs the libraries need values. The
  tokenizer is the one of \<open>natural\<close> on ASCII text: the maximal runs of word
  characters. The others are stand-ins: a stemmer that changes nothing, a term list
  that gives every distinct token the weight 1, a neutral polarity, and a number
  formatting that prints nothing.
\<close>

fun wordRuns :: "string \<Rightarrow> string \<Rightarrow> string list" where
  "wordRuns cur [] = (if cur = [] then [] else [rev cur])"
| "wordRuns cur (c # cs) =
     (if isWordChar c then wordRuns (c # cur) cs
      else if cur = [] then wordRuns [] cs
      else rev cur # wordRuns [] cs)"

definition plainLibraries :: env where
  "plainLibraries =
     \<lparr> tokenize = wordRuns [],
       stem = (\<lambda>w. w),
       listTermsOfText = (\<lambda>t. map (\<lambda>w. (w, 1)) (remdups (wordRuns [] t))),
       listTermsOfTokens = (\<lambda>ws. map (\<lambda>w. (w, 1)) (remdups ws)),
       compound = (\<lambda>s. 0),
       numberToString = (\<lambda>n. []),
       toFixed2 = (\<lambda>n. []) \<rparr>"

definition allCallsRejected :: GrokOutcomes where
  "allCallsRejected =
     \<lparr> semanticElasticityCall = Rejected,
       emotionalExpressionCall = Rejected,
       referenceAbilityCall = Rejected,
       ambiguityHandlingCall = Rejected,
       creativeThinkingCall = Rejected \<rparr>"

definition allCallsAnswered :: GrokOutcomes where
  "allCallsAnswered =
     \<lparr> semanticElasticityCall = Fulfilled [Some ''Score: 0.8. Natural transitions.''],
       emotionalExpressionCall = Fulfilled [Some ''I would give it a score of 0.9''],
       referenceAbilityCall = Fulfilled [Some ''Concrete details. SCORE:0.75''],
       ambiguityHandlingCall = Fulfilled [Some ''No number here''],
       creativeThinkingCall = Fulfilled [Some ''score 7''] \<rparr>"

definition sampleRequest :: AnalyzeRequest where
  "sampleRequest =
     \<lparr> requestText = Some ''Hello'',
       responseDelays = Some [Fin 2000, Fin 2200, Fin 2100],
       sessionId = None \<rparr>"

definition dotsRequest :: AnalyzeRequest where
  \<comment> \<open>an answer of punctuation only\<close>
  "dotsRequest = \<lparr> requestText = Some ''...'', responseDelays = Some [], sessionId = None \<rparr>"

definition blankRequest :: AnalyzeRequest where
  \<comment> \<open>an answer of white space only\<close>
  "blankRequest = \<lparr> requestText = Some ''   '', responseDelays = Some [], sessionId = None \<rparr>"

definition emptyRequest :: AnalyzeRequest where
  "emptyRequest = \<lparr> requestText = Some [], responseDelays = Some [], sessionId = None \<rparr>"

section \<open>The time-perception score as the specification words it\<close>

text \<open>
  The specification gives the two precise patterns as \<open>\d{1,2}[/.-]\d{1,2}[/.-]\d{2,4}\<close>
  and \<open>\d{1,2}:\d{2}\<close>, and the delay as the mean of the array, 0 when it is empty.
\<close>

definition specDatePattern :: regex where
  "specDatePattern =
     rseq (rrep 1 2 (rchar isDigit))
       (rseq (rchar isDateSeparator)
          (rseq (rrep 1 2 (rchar isDigit))
             (rseq (rchar isDateSeparator) (rrep 2 4 (rchar isDigit)))))"

definition specTimePattern :: regex where
  "specTimePattern =
     rseq (rrep 1 2 (rchar isDigit))
       (rseq (rchar (\<lambda>c. c = CHR '':'')) (rrep 2 2 (rchar isDigit)))"

definition meanDelay :: "real list \<Rightarrow> real" where
  "meanDelay ds = (if ds = [] then 0 else sum_list ds / real (length ds))"

definition delayAdjustment :: "real \<Rightarrow> real" where
  "delayAdjustment m =
     (if 1200 \<le> m \<and> m \<le> 3400 then 2 / 10 else if m < 500 then - (2 / 10) else 0)"

definition specTimePerceptionScore :: "string \<Rightarrow> real list \<Rightarrow> real" where
  "specTimePerceptionScore t ds =
     min (max (5 / 10 + delayAdjustment (meanDelay ds)
               + (if hasVagueTimeReferences t then 15 / 100 else 0)
               - (if regexTest specDatePattern t \<or> regexTest specTimePattern t
                  then 15 / 100 else 0)) 0) 1"

section \<open>Notions of the proofs\<close>

text \<open>
  The loop of the segmentation keeps this property of every segment it has pushed and
  of the one it is building: the segment is one of the sentences, or it has at most 201
  characters (the threshold of 200 is tested on the lengths of the two parts, before
  the space between them is added).
\<close>

definition segmentOk :: "string set \<Rightarrow> string \<Rightarrow> bool" where
  "segmentOk S seg = (seg \<in> S \<or> length seg \<le> 201)"

text \<open>A pattern is finer than another when each of its matches is a match of the other.\<close>

definition finer :: "regex \<Rightarrow> regex \<Rightarrow> bool" where
  "finer r r' = (\<forall>pos. set (r pos) \<subseteq> set (r' pos))"

section \<open>Basic facts\<close>

lemma jsadd_NaN_right [simp]: "jsadd a NaN = NaN"
  by (cases a) simp_all

lemma jsmul_NaN_right [simp]: "jsmul a NaN = NaN"
  by (cases a) simp_all

lemma jsdiv_NaN_right [simp]: "jsdiv a NaN = NaN"
  by (cases a) simp_all

lemma jssub_NaN [simp]: "jssub a NaN = NaN" "jssub NaN a = NaN"
  by (simp_all add: jssub_def)

lemma NaN_not_unit [simp]: "\<not> isUnit NaN"
  by (simp add: isUnit_def)

lemma classify_NaN [simp]: "classify NaN = Ambiguous"
  by (simp add: classify_def jsge_def jsle_def)

lemma overall_NaN [simp]: "AISimilarityScoring_calculateOverallScore NaN e c = NaN"
  by (simp add: AISimilarityScoring_calculateOverallScore_def invertAIScore_def)

lemma combine_NaN [simp]: "combineScores NaN i = NaN"
  by (simp add: combineScores_def)

lemma vocabulary_no_tokens:
  "tokenize L t = [] \<Longrightarrow> calculateVocabularyComplexity L t = Inr NaN"
  by (simp add: calculateVocabularyComplexity_def stemmedTokensOf_def wordsInText_def Let_def)

lemma fewer_than_two_segments:
  "length textSegments < 2 \<Longrightarrow> calculateEmotionalFluctuation L textSegments = Fin 0"
  "length textSegments < 2 \<Longrightarrow> calculateCreativeDivergence L textSegments = Fin 0"
  by (simp_all add: calculateEmotionalFluctuation_def calculateCreativeDivergence_def)

subsection \<open>The response of the handler, field by field\<close>

lemma POST_report:
  assumes "requestText request = Some t" "t \<noteq> []" "calculateVocabularyComplexity L t = Inr v"
  shows "is_Ok (POST L g request)"
    and "textStructure (report (POST L g request)) = analyzeTextStructure L t"
    and "vocabularyComplexity (aiSimilarity (report (POST L g request))) = v"
    and "emotionalFluctuation (aiSimilarity (report (POST L g request)))
           = calculateEmotionalFluctuation L (textSegmentsOf t)"
    and "creativeDivergence (aiSimilarity (report (POST L g request)))
           = calculateCreativeDivergence L (textSegmentsOf t)"
    and "AISimilarity.overallScore (aiSimilarity (report (POST L g request)))
           = AISimilarityScoring_calculateOverallScore v
               (calculateEmotionalFluctuation L (textSegmentsOf t))
               (calculateCreativeDivergence L (textSegmentsOf t))"
    and "featureResults (report (POST L g request))
           = [catch (analyzeSemanticElasticity (semanticElasticityCall g))
                (fallbackResult ''semantic elasticity'' semanticElasticityRubric),
              catch (analyzeEmotionalExpression (emotionalExpressionCall g))
                (fallbackResult ''emotional expression'' emotionalExpressionRubric),
              catch (analyzeReferenceAbility (referenceAbilityCall g))
                (fallbackResult ''reference ability'' referenceAbilityRubric),
              catch (analyzeAmbiguityHandling (ambiguityHandlingCall g))
                (fallbackResult ''ambiguity handling'' ambiguityHandlingRubric),
              catch (analyzeCreativeThinking (creativeThinkingCall g))
                (fallbackResult ''creative thinking'' creativeThinkingRubric),
              catch (analyzeTimePerception L t
                       (case responseDelays request of None \<Rightarrow> [] | Some ds \<Rightarrow> ds))
                (fallbackResult ''time perception'' timePerceptionRubric)]"
  using assms by (simp_all add: POST_def Let_def featureResults_def)

lemma POST_scores:
  assumes "POST L g request = Ok r"
  shows "InnovationFeatures.overallScore (innovationFeatures r)
           = InnovationFeatureMatrix_calculateOverallScore
               (score (featureResults r ! 0)) (score (featureResults r ! 1))
               (score (featureResults r ! 2)) (score (featureResults r ! 3))
               (score (featureResults r ! 4)) (score (featureResults r ! 5))"
    and "overallHumanLikenessScore r
           = combineScores (AISimilarity.overallScore (aiSimilarity r))
                           (InnovationFeatures.overallScore (innovationFeatures r))"
    and "classification r = classify (overallHumanLikenessScore r)"
  using assms
  by (auto simp: POST_def Let_def featureResults_def split: option.splits if_splits sum.splits)

lemma POST_Ok_iff:
  "is_Ok (POST L g request)
     = (\<exists>t v. requestText request = Some t \<and> t \<noteq> []
              \<and> calculateVocabularyComplexity L t = Inr v)"
  by (auto simp: POST_def Let_def split: option.splits if_splits sum.splits)

lemma is_Ok_report: "is_Ok p \<Longrightarrow> p = Ok (report p)"
  by (cases p) simp_all

lemma POST_Ok_text:
  assumes "POST L g request = Ok r"
  obtains t v where "requestText request = Some t" "t \<noteq> []"
    "calculateVocabularyComplexity L t = Inr v"
proof -
  have "is_Ok (POST L g request)" using assms by simp
  then show ?thesis using that by (auto simp: POST_Ok_iff)
qed

text \<open>
  A text without tokens passes through the whole pipeline: the two densities of the
  vocabulary score are \<open>0 / 0\<close>, and the \<open>NaN\<close> reaches the overall score.
\<close>

lemma no_tokens_report:
  assumes "requestText request = Some t" "t \<noteq> []" "tokenize L t = []"
  shows "is_Ok (POST L g request)"
    and "vocabularyComplexity (aiSimilarity (report (POST L g request))) = NaN"
    and "AISimilarity.overallScore (aiSimilarity (report (POST L g request))) = NaN"
    and "overallHumanLikenessScore (report (POST L g request)) = NaN"
    and "classification (report (POST L g request)) = Ambiguous"
    and "lexicalDiversity (textStructure (report (POST L g request))) = NaN"
proof -
  note v = vocabulary_no_tokens [OF assms(3)]
  note r = POST_report [OF assms(1,2) v]
  show ok: "is_Ok (POST L g request)" by (rule r(1))
  show "vocabularyComplexity (aiSimilarity (report (POST L g request))) = NaN" by (rule r(3))
  show a: "AISimilarity.overallScore (aiSimilarity (report (POST L g request))) = NaN"
    by (simp add: r(6))
  note s = POST_scores [OF is_Ok_report [OF ok]]
  show o: "overallHumanLikenessScore (report (POST L g request)) = NaN"
    by (simp add: s(2) a)
  show "classification (report (POST L g request)) = Ambiguous"
    by (simp add: s(3) o)
  show "lexicalDiversity (textStructure (report (POST L g request))) = NaN"
    by (simp add: r(2) analyzeTextStructure_def Let_def assms(3))
qed

lemma blank_tokens: "tokenize plainLibraries ''   '' = []"
  by code_simp

lemma dots_tokens: "tokenize plainLibraries ''...'' = []"
  by code_simp

lemma timePerception_result:
  "catch (analyzeTimePerception L t ds) fb
     = \<lparr> score = Fin (timePerceptionScore t ds),
         analysis = analysis (catch (analyzeTimePerception L t ds) fb),
         humanVsAI = timePerceptionRubric \<rparr>"
  by (simp add: analyzeTimePerception_def catch_def Let_def)

subsection \<open>The sample request\<close>

lemma sample_vocabulary: "calculateVocabularyComplexity plainLibraries ''Hello'' = Inr (Fin 0)"
  by code_simp

lemma sample_segments: "textSegmentsOf ''Hello'' = [''Hello'']"
  by code_simp

lemma sample_judges:
  "map (map_settled score)
     [analyzeSemanticElasticity (semanticElasticityCall allCallsAnswered),
      analyzeEmotionalExpression (emotionalExpressionCall allCallsAnswered),
      analyzeReferenceAbility (referenceAbilityCall allCallsAnswered),
      analyzeAmbiguityHandling (ambiguityHandlingCall allCallsAnswered),
      analyzeCreativeThinking (creativeThinkingCall allCallsAnswered)]
   = [Fulfilled (Fin (8 / 10)), Fulfilled (Fin (1 / 2)), Fulfilled (Fin (3 / 4)),
      Fulfilled (Fin (1 / 2)), Fulfilled (Fin 1)]"
  by code_simp

lemma sample_time: "timePerceptionScore ''Hello'' [Fin 2000, Fin 2200, Fin 2100] = 7 / 10"
  by code_simp

lemma score_catch:
  "map_settled score p = Fulfilled x \<Longrightarrow> score (catch p fb) = x"
  by (cases p) (simp_all add: catch_def)

lemma sample_scores:
  "map score (featureResults (report (POST plainLibraries allCallsAnswered sampleRequest)))
     = [Fin (8 / 10), Fin (1 / 2), Fin (3 / 4), Fin (1 / 2), Fin 1, Fin (7 / 10)]"
proof -
  have t: "requestText sampleRequest = Some ''Hello''" "''Hello'' \<noteq> []"
    by (simp_all add: sampleRequest_def)
  have d: "(case responseDelays sampleRequest of None \<Rightarrow> [] | Some ds \<Rightarrow> ds)
             = [Fin 2000, Fin 2200, Fin 2100]"
    by (simp add: sampleRequest_def)
  have tp: "score (catch (analyzeTimePerception plainLibraries ''Hello''
                            [Fin 2000, Fin 2200, Fin 2100]) fb) = Fin (7 / 10)" for fb
    by (subst timePerception_result) (simp add: sample_time)
  show ?thesis
    using sample_judges
    by (simp add: POST_report(7) [OF t sample_vocabulary] d tp score_catch)
qed

lemma sample_overall:
  "is_Ok (POST plainLibraries allCallsAnswered sampleRequest)"
  "AISimilarity.overallScore
     (aiSimilarity (report (POST plainLibraries allCallsAnswered sampleRequest))) = Fin 1"
  "InnovationFeatures.overallScore
     (innovationFeatures (report (POST plainLibraries allCallsAnswered sampleRequest)))
     = Fin (7025 / 10000)"
proof -
  let ?p = "POST plainLibraries allCallsAnswered sampleRequest"
  have t: "requestText sampleRequest = Some ''Hello''" "''Hello'' \<noteq> []"
    by (simp_all add: sampleRequest_def)
  show ok: "is_Ok ?p"
    by (rule POST_report(1) [OF t sample_vocabulary])
  show "AISimilarity.overallScore (aiSimilarity (report ?p)) = Fin 1"
    by (simp add: POST_report(6) [OF t sample_vocabulary] sample_segments
          fewer_than_two_segments AISimilarityScoring_calculateOverallScore_def
          invertAIScore_def jssub_def)
  have e: "?p = Ok (report ?p)"
    using ok by (rule is_Ok_report)
  have i: "InnovationFeatureMatrix_calculateOverallScore
          (Fin (8 / 10)) (Fin (1 / 2)) (Fin (3 / 4)) (Fin (1 / 2)) (Fin 1) (Fin (7 / 10))
        = Fin (7025 / 10000)"
    by code_simp
  show "InnovationFeatures.overallScore (innovationFeatures (report ?p))
          = Fin (7025 / 10000)"
    using sample_scores i by (simp add: POST_scores(1) [OF e] featureResults_def Let_def)
qed

section \<open>The scorers on fewer than two segments\<close>

text \<open>
  Claim C6. For every list of fewer than two segments (empty or a single segment), the
  sentiment-variance scorer \<open>calculateEmotionalFluctuation\<close> and the concept-divergence
  scorer \<open>calculateCreativeDivergence\<close> each return exactly 0, whatever the libraries
  answer.
\<close>

theorem C6_fewer_than_two_segments:
  "length textSegments < 2 \<Longrightarrow>
     calculateEmotionalFluctuation L textSegments = Fin 0
     \<and> calculateCreativeDivergence L textSegments = Fin 0"
  by (simp add: calculateEmotionalFluctuation_def calculateCreativeDivergence_def)

theorem C6_fewer_than_two_segments_witness:
  "length [''I was late'' :: string] < 2
   \<and> calculateEmotionalFluctuation plainLibraries [''I was late''] = Fin 0
   \<and> calculateCreativeDivergence plainLibraries [''I was late''] = Fin 0
   \<and> calculateEmotionalFluctuation plainLibraries [] = Fin 0
   \<and> calculateCreativeDivergence plainLibraries [] = Fin 0"
  using C6_fewer_than_two_segments [of "[''I was late'']" plainLibraries]
        C6_fewer_than_two_segments [of "[]" plainLibraries]
  by simp

section \<open>The length of a segment\<close>

lemma segmentStep_ok:
  assumes "list_all (segmentOk S) (fst st)" "segmentOk S (snd st)" "sentence \<in> S"
  shows "list_all (segmentOk S) (fst (segmentStep st sentence))
         \<and> segmentOk S (snd (segmentStep st sentence))"
  using assms by (cases st) (auto simp: segmentStep_def segmentOk_def)

lemma foldl_segmentStep_ok:
  "list_all (segmentOk S) (fst st) \<Longrightarrow> segmentOk S (snd st) \<Longrightarrow> set sentences \<subseteq> S \<Longrightarrow>
     list_all (segmentOk S) (fst (foldl segmentStep st sentences))
     \<and> segmentOk S (snd (foldl segmentStep st sentences))"
proof (induction sentences arbitrary: st)
  case Nil
  then show ?case by simp
next
  case (Cons x xs)
  have "list_all (segmentOk S) (fst (segmentStep st x)) \<and> segmentOk S (snd (segmentStep st x))"
    using Cons.prems by (intro segmentStep_ok) auto
  then show ?case using Cons.IH [of "segmentStep st x"] Cons.prems by simp
qed

lemma groupSentences_ok:
  assumes "seg \<in> set (groupSentences sentences)"
  shows "seg \<in> set sentences \<or> length seg \<le> 201"
proof -
  obtain segs cur where f: "foldl segmentStep ([], []) sentences = (segs, cur)"
    by (cases "foldl segmentStep ([], []) sentences")
  have "list_all (segmentOk (set sentences)) (fst (foldl segmentStep ([], []) sentences))
        \<and> segmentOk (set sentences) (snd (foldl segmentStep ([], []) sentences))"
    by (rule foldl_segmentStep_ok) (simp_all add: segmentOk_def)
  then have "list_all (segmentOk (set sentences)) segs" "segmentOk (set sentences) cur"
    using f by simp_all
  moreover have "seg \<in> set segs \<or> seg = cur"
    using assms f by (auto simp: groupSentences_def split: if_splits)
  ultimately have "segmentOk (set sentences) seg"
    by (auto simp: list_all_iff)
  then show ?thesis by (simp add: segmentOk_def)
qed

lemma splitRuns_plain:
  "\<forall>c \<in> set s. \<not> isTerminator c \<Longrightarrow> splitRuns b cur s = [rev cur @ s]"
  by (induction s arbitrary: b cur) auto

text \<open>
  Claim C9, as stated: every segment is at most 200 characters long. It fails on a
  text that is one sentence of 201 characters: the loop pushes the empty segment it
  starts with and then the whole sentence.
\<close>

theorem C9_counterexample:
  "textSegmentsOf (replicate 201 (CHR ''a'')) = [[], replicate 201 (CHR ''a'')]
   \<and> length (replicate 201 (CHR ''a'')) > 200"
proof -
  have "splitRuns False [] (replicate 201 (CHR ''a'')) = [replicate 201 (CHR ''a'')]"
    using splitRuns_plain [of "replicate 201 (CHR ''a'')" False "[]"]
    by (simp add: isTerminator_def)
  moreover have "trim (replicate 201 (CHR ''a'')) = replicate 201 (CHR ''a'')"
    by (simp add: trim_def isSpace_def dropWhile_replicate)
  ultimately have "splitSentences (replicate 201 (CHR ''a'')) = [replicate 201 (CHR ''a'')]"
    by (simp add: splitSentences_def)
  then show ?thesis
    by (simp add: textSegmentsOf_def groupSentences_def segmentStep_def)
qed

text \<open>
  Claim C9, amended: every segment is one whole sentence of the text (of any length),
  or it is at most 201 characters long.
\<close>

theorem C9_segment_length:
  "seg \<in> set (textSegmentsOf t) \<Longrightarrow> seg \<in> set (splitSentences t) \<or> length seg \<le> 201"
  unfolding textSegmentsOf_def by (rule groupSentences_ok)

text \<open>The bound is met: two sentences of 100 characters make one segment of 201.\<close>

theorem C9_segment_length_witness:
  "replicate 100 (CHR ''a'') @ '' '' @ replicate 100 (CHR ''b'')
     \<in> set (textSegmentsOf (replicate 100 (CHR ''a'') @ ''.'' @ replicate 100 (CHR ''b'')))
   \<and> replicate 100 (CHR ''a'') @ '' '' @ replicate 100 (CHR ''b'')
        \<notin> set (splitSentences (replicate 100 (CHR ''a'') @ ''.'' @ replicate 100 (CHR ''b'')))
   \<and> length (replicate 100 (CHR ''a'') @ '' '' @ replicate 100 (CHR ''b'')) = 201"
proof -
  let ?t = "replicate 100 (CHR ''a'') @ ''.'' @ replicate 100 (CHR ''b'')"
  let ?seg = "replicate 100 (CHR ''a'') @ '' '' @ replicate 100 (CHR ''b'')"
  have m: "?seg \<in> set (textSegmentsOf ?t)"
    by code_simp
  have n: "?seg \<notin> set (splitSentences ?t)"
    by code_simp
  show ?thesis
    using m n C9_segment_length [OF m] by simp
qed

section \<open>The time-perception score stays inside the clamp\<close>

lemma raw_score_bounds:
  "15 / 100 \<le> timePerceptionRawScore t ds \<and> timePerceptionRawScore t ds \<le> 85 / 100"
  by (simp add: timePerceptionRawScore_def Let_def)

text \<open>
  Claim C10. For every text and every array of delays (special values included), the
  score of the time-perception judge lies within [0.15, 0.85]: the two adjustments of
  0.2 for the delay exclude each other, the two adjustments of 0.15 for the phrases
  bound the distance from 0.5 by 0.35, and the final clamp to [0,1] returns the score
  unchanged. It is the score of the result that \<open>analyzeTimePerception\<close> resolves to.
\<close>

theorem C10_time_perception_range:
  "15 / 100 \<le> timePerceptionScore t ds
   \<and> timePerceptionScore t ds \<le> 85 / 100
   \<and> timePerceptionScore t ds = timePerceptionRawScore t ds
   \<and> \<not> (jsge (averageDelay ds) (Fin 1200) \<and> jsle (averageDelay ds) (Fin 3400)
          \<and> jslt (averageDelay ds) (Fin 500))
   \<and> map_settled score (analyzeTimePerception L t ds)
        = Fulfilled (Fin (timePerceptionScore t ds))"
proof -
  have b: "15 / 100 \<le> timePerceptionRawScore t ds \<and> timePerceptionRawScore t ds \<le> 85 / 100"
    by (rule raw_score_bounds)
  then have e: "timePerceptionScore t ds = timePerceptionRawScore t ds"
    by (simp add: timePerceptionScore_def)
  have x: "\<not> (jsge (averageDelay ds) (Fin 1200) \<and> jsle (averageDelay ds) (Fin 3400)
             \<and> jslt (averageDelay ds) (Fin 500))"
    by (cases "averageDelay ds") (auto simp: jsge_def jsle_def)
  have m: "map_settled score (analyzeTimePerception L t ds)
             = Fulfilled (Fin (timePerceptionScore t ds))"
    by (simp add: analyzeTimePerception_def Let_def)
  from b e x m show ?thesis by simp
qed

text \<open>Both ends of the range are reached.\<close>

theorem C10_time_perception_range_witness:
  "timePerceptionScore ''I met her last week'' [Fin 2000, Fin 2200, Fin 2100] = 85 / 100
   \<and> timePerceptionScore ''Meeting at 14:30 on 12/05/2024'' [Fin 100, Fin 120] = 15 / 100
   \<and> timePerceptionScore ''Hello'' [PosInf, NegInf] = 5 / 10"
proof -
  have a: "timePerceptionRawScore ''I met her last week'' [Fin 2000, Fin 2200, Fin 2100]
             = 85 / 100"
    by code_simp
  have b: "timePerceptionRawScore ''Meeting at 14:30 on 12/05/2024'' [Fin 100, Fin 120]
             = 15 / 100"
    by code_simp
  have c: "timePerceptionRawScore ''Hello'' [PosInf, NegInf] = 5 / 10"
    by code_simp
  show ?thesis
    using a b c
      C10_time_perception_range [of "''I met her last week''" "[Fin 2000, Fin 2200, Fin 2100]"]
      C10_time_perception_range [of "''Meeting at 14:30 on 12/05/2024''" "[Fin 100, Fin 120]"]
      C10_time_perception_range [of "''Hello''" "[PosInf, NegInf]"]
    by simp
qed

section \<open>The aggregator of the AI-similarity scores\<close>

text \<open>
  Claim C5. For any three scores \<open>v\<close>, \<open>s\<close>, \<open>d\<close> (finite and not negative), the
  aggregator transforms each by \<open>f(x) = 1 - x^1.5\<close> and returns
  \<open>0.3 f(v) + 0.4 f(s) + 0.3 f(d)\<close>.
\<close>

theorem C5_overall_score:
  "0 \<le> v \<Longrightarrow> 0 \<le> s \<Longrightarrow> 0 \<le> d \<Longrightarrow>
     AISimilarityScoring_calculateOverallScore (Fin v) (Fin s) (Fin d)
       = Fin (3 / 10 * (1 - v powr (15 / 10)) + 4 / 10 * (1 - s powr (15 / 10))
              + 3 / 10 * (1 - d powr (15 / 10)))
     \<and> invertAIScore (Fin v) = Fin (1 - v powr (15 / 10))"
  by (simp add: AISimilarityScoring_calculateOverallScore_def invertAIScore_def jssub_def
        algebra_simps)

theorem C5_overall_score_witness:
  "AISimilarityScoring_calculateOverallScore (Fin 0) (Fin 1) (Fin 0) = Fin (6 / 10)
   \<and> AISimilarityScoring_calculateOverallScore (Fin 1) (Fin 1) (Fin 1) = Fin 0
   \<and> AISimilarityScoring_calculateOverallScore (Fin 0) (Fin 0) (Fin 0) = Fin 1
   \<and> invertAIScore (Fin 1) = Fin 0"
  using C5_overall_score [of 0 1 0] C5_overall_score [of 1 1 1] C5_overall_score [of 0 0 0]
  by simp

section \<open>The composite classifier\<close>

text \<open>
  Claim C2. The overall score is \<open>0.4 a + 0.6 i\<close> for the AI-similarity score \<open>a\<close> and
  the innovation-feature score \<open>i\<close>; a score of at least 0.7 is classified Human, a
  score of at most 0.3 AI, and every score strictly between them Ambiguous. The inputs
  (0.9, 0.9) give Human, (0.1, 0.1) give AI and (0.5, 0.5) give Ambiguous. The report of
  the handler holds this score of its two overall scores, and this class of it.
\<close>

theorem C2_composite_classifier:
  "combineScores (Fin a) (Fin i) = Fin (4 / 10 * a + 6 / 10 * i)
   \<and> classify (Fin x) = (if 7 / 10 \<le> x then Human else if x \<le> 3 / 10 then AI else Ambiguous)
   \<and> classify (combineScores (Fin (9 / 10)) (Fin (9 / 10))) = Human
   \<and> classify (combineScores (Fin (1 / 10)) (Fin (1 / 10))) = AI
   \<and> classify (combineScores (Fin (5 / 10)) (Fin (5 / 10))) = Ambiguous
   \<and> (POST L g request = Ok r \<longrightarrow>
        overallHumanLikenessScore r
          = combineScores (AISimilarity.overallScore (aiSimilarity r))
                          (InnovationFeatures.overallScore (innovationFeatures r))
        \<and> classification r = classify (overallHumanLikenessScore r))"
proof -
  have c: "combineScores (Fin a) (Fin i) = Fin (4 / 10 * a + 6 / 10 * i)" for a i
    by (simp add: combineScores_def)
  have k: "classify (Fin x)
             = (if 7 / 10 \<le> x then Human else if x \<le> 3 / 10 then AI else Ambiguous)" for x
    by (auto simp: classify_def jsge_def jsle_def)
  have p: "POST L g request = Ok r \<longrightarrow>
        overallHumanLikenessScore r
          = combineScores (AISimilarity.overallScore (aiSimilarity r))
                          (InnovationFeatures.overallScore (innovationFeatures r))
        \<and> classification r = classify (overallHumanLikenessScore r)"
    by (auto simp: POST_def Let_def split: option.splits if_splits sum.splits)
  show ?thesis using c k p by simp
qed

text \<open>
  On the sample request the AI-similarity score is 1 and the innovation-feature score
  0.7025, so the overall score is 0.8215 and the class Human.
\<close>

theorem C2_composite_classifier_witness:
  "POST plainLibraries allCallsAnswered sampleRequest
     = Ok (report (POST plainLibraries allCallsAnswered sampleRequest))
   \<and> overallHumanLikenessScore (report (POST plainLibraries allCallsAnswered sampleRequest))
       = Fin (8215 / 10000)
   \<and> classification (report (POST plainLibraries allCallsAnswered sampleRequest)) = Human"
proof -
  let ?p = "POST plainLibraries allCallsAnswered sampleRequest"
  have e: "?p = Ok (report ?p)"
    using sample_overall(1) by (rule is_Ok_report)
  show ?thesis
    using e sample_overall(2,3)
      C2_composite_classifier [of 1 "7025 / 10000" "8215 / 10000" plainLibraries
        allCallsAnswered sampleRequest "report ?p"]
    by simp
qed

section \<open>Other special values and failures\<close>

text \<open>
  A stem that names an inherited property of the dictionary makes the vocabulary score
  throw, and the handler answers with its general failure.
\<close>

lemma inherited_property_throws:
  "currentToken \<in> set objectPrototypeKeys \<Longrightarrow>
     buildMarkovChain (currentToken # nextToken # rest) markovChain = Inl TypeError"
  by simp

lemma constructor_request:
  "POST plainLibraries allCallsAnswered
     \<lparr> requestText = Some ''The constructor is private'', responseDelays = Some [],
       sessionId = None \<rparr>
   = ServerError ''Failed to analyze text''"
proof -
  have "calculateVocabularyComplexity plainLibraries ''The constructor is private''
          = Inl TypeError"
    by code_simp
  then show ?thesis
    by (simp add: POST_def Let_def)
qed

text \<open>
  A reply in which the word "score" is followed by a dot and no digit is matched by the
  pattern of the judges; the capture is the dot, and the clamp returns \<open>NaN\<close>.
\<close>

lemma reply_without_number:
  "scoreOfAnalysis ''I cannot give a score. The text is too short.'' = NaN"
  by code_simp

text \<open>Two consecutive segments without key terms have the similarity \<open>0 / 0\<close>.\<close>

lemma segments_without_terms:
  "calculateCreativeDivergence plainLibraries [''--'', ''--''] = NaN"
  by code_simp

section \<open>Validation of the request\<close>

text \<open>
  Claim C8, as stated: a text that is empty or only white space is rejected and the
  pipeline does not run. It fails on a text of three spaces: the handler tests
  \<open>!text\<close>, which is false for every non-empty string, so the pipeline runs and a
  report is returned.
\<close>

theorem C8_counterexample:
  "trim ''   '' = []
   \<and> is_Ok (POST plainLibraries allCallsAnswered blankRequest)
   \<and> overallHumanLikenessScore (report (POST plainLibraries allCallsAnswered blankRequest)) = NaN
   \<and> classification (report (POST plainLibraries allCallsAnswered blankRequest)) = Ambiguous"
proof -
  have t: "requestText blankRequest = Some ''   ''" "''   '' \<noteq> []"
    by (simp_all add: blankRequest_def)
  have "trim ''   '' = []" by code_simp
  then show ?thesis
    using no_tokens_report [OF t blank_tokens, of allCallsAnswered] by simp
qed

text \<open>
  Claim C8, amended: the handler rejects a request with the error "Text is required"
  exactly when its text is missing or the empty string, and then the pipeline is not
  invoked: the response is the same whatever the libraries and the language model
  would answer. On every other text, white space included, the pipeline runs: the
  response is a report, or the failure of the pipeline.
\<close>

theorem C8_missing_or_empty_text:
  "(POST L g request = BadRequest ''Text is required'')
     = (requestText request = None \<or> requestText request = Some [])
   \<and> (requestText request = None \<or> requestText request = Some [] \<longrightarrow>
        POST L g request = POST L' g' request)
   \<and> (requestText request = Some t \<and> t \<noteq> [] \<longrightarrow>
        POST L g request
          = (case calculateVocabularyComplexity L t of
               Inl e \<Rightarrow> ServerError ''Failed to analyze text''
             | Inr v \<Rightarrow> Ok (report (POST L g request))))"
  by (auto simp: POST_def Let_def split: option.splits if_splits sum.splits)

theorem C8_missing_or_empty_text_witness:
  "POST plainLibraries allCallsAnswered emptyRequest = BadRequest ''Text is required''
   \<and> POST plainLibraries allCallsAnswered (emptyRequest \<lparr> requestText := None \<rparr>)
       = BadRequest ''Text is required''
   \<and> POST plainLibraries allCallsAnswered sampleRequest
       = Ok (report (POST plainLibraries allCallsAnswered sampleRequest))
   \<and> POST plainLibraries allCallsAnswered sampleRequest \<noteq> BadRequest ''Text is required''"
proof -
  have s: "requestText sampleRequest = Some ''Hello'' \<and> ''Hello'' \<noteq> []"
    by (simp add: sampleRequest_def)
  show ?thesis
    using s sample_vocabulary
      C8_missing_or_empty_text [of plainLibraries allCallsAnswered emptyRequest
          plainLibraries allCallsRejected "[]"]
      C8_missing_or_empty_text [of plainLibraries allCallsAnswered
          "emptyRequest \<lparr> requestText := None \<rparr>" plainLibraries allCallsRejected "[]"]
      C8_missing_or_empty_text [of plainLibraries allCallsAnswered sampleRequest
          plainLibraries allCallsRejected "''Hello''"]
    by (simp add: emptyRequest_def)
qed

section \<open>Scores that are not numbers\<close>

text \<open>
  Claim C1 says that every score of a report is a number within [0,1]. On the answer
  \<open>...\<close>, which the form and the handler both accept, the tokenizer finds no token;
  the vocabulary score, the AI-similarity score and the overall score are \<open>NaN\<close>.
\<close>

theorem C1_scores_not_a_number:
  "is_Ok (POST plainLibraries allCallsAnswered dotsRequest)
   \<and> vocabularyComplexity (aiSimilarity (report (POST plainLibraries allCallsAnswered dotsRequest))) = NaN
   \<and> AISimilarity.overallScore (aiSimilarity (report (POST plainLibraries allCallsAnswered dotsRequest))) = NaN
   \<and> overallHumanLikenessScore (report (POST plainLibraries allCallsAnswered dotsRequest)) = NaN
   \<and> \<not> isUnit (overallHumanLikenessScore (report (POST plainLibraries allCallsAnswered dotsRequest)))
   \<and> classification (report (POST plainLibraries allCallsAnswered dotsRequest)) = Ambiguous"
proof -
  have t: "requestText dotsRequest = Some ''...''" "''...'' \<noteq> []"
    by (simp_all add: dotsRequest_def)
  show ?thesis
    using no_tokens_report [OF t dots_tokens, of allCallsAnswered] by simp
qed

text \<open>
  Claim C7 says that the two divisions of the lexical analyzer are guarded. On the same
  answer both are \<open>0 / 0\<close>.
\<close>

theorem C7_division_by_zero:
  "analyzeTextStructure plainLibraries ''...''
     = \<lparr> lexicalDiversity = NaN, avgSentenceLength = NaN, keyTerms = [],
         tokenCount = 0, sentenceCount = 0 \<rparr>"
  by code_simp

section \<open>A judge that fails\<close>

text \<open>
  Claim C4. When the call of one judge is rejected, that judge resolves to exactly its
  canned result (score 0.5, the text "Error analyzing" and the dimension, the rubric of
  the dimension). No error reaches the caller: whenever the handler returns a report,
  it still returns one after the call of any one judge is replaced by a rejected one,
  the result of that dimension is the canned one and the other five results are the
  same. A report has six feature results.
\<close>

theorem C4_failed_judge_falls_back:
  "analyzeSemanticElasticity Rejected
     = Fulfilled \<lparr> score = Fin (5 / 10), analysis = ''Error analyzing semantic elasticity'',
                   humanVsAI = semanticElasticityRubric \<rparr>
   \<and> analyzeEmotionalExpression Rejected
     = Fulfilled \<lparr> score = Fin (5 / 10), analysis = ''Error analyzing emotional expression'',
                   humanVsAI = emotionalExpressionRubric \<rparr>
   \<and> analyzeReferenceAbility Rejected
     = Fulfilled \<lparr> score = Fin (5 / 10), analysis = ''Error analyzing reference ability'',
                   humanVsAI = referenceAbilityRubric \<rparr>
   \<and> analyzeAmbiguityHandling Rejected
     = Fulfilled \<lparr> score = Fin (5 / 10), analysis = ''Error analyzing ambiguity handling'',
                   humanVsAI = ambiguityHandlingRubric \<rparr>
   \<and> analyzeCreativeThinking Rejected
     = Fulfilled \<lparr> score = Fin (5 / 10), analysis = ''Error analyzing creative thinking'',
                   humanVsAI = creativeThinkingRubric \<rparr>
   \<and> (POST L g request = Ok r \<longrightarrow>
        length (featureResults r) = 6
        \<and> is_Ok (POST L (g \<lparr> semanticElasticityCall := Rejected \<rparr>) request)
        \<and> featureResults (report (POST L (g \<lparr> semanticElasticityCall := Rejected \<rparr>) request))
            = (featureResults r)
                [0 := \<lparr> score = Fin (5 / 10), analysis = ''Error analyzing semantic elasticity'',
                         humanVsAI = semanticElasticityRubric \<rparr>]
        \<and> is_Ok (POST L (g \<lparr> emotionalExpressionCall := Rejected \<rparr>) request)
        \<and> featureResults (report (POST L (g \<lparr> emotionalExpressionCall := Rejected \<rparr>) request))
            = (featureResults r)
                [1 := \<lparr> score = Fin (5 / 10), analysis = ''Error analyzing emotional expression'',
                         humanVsAI = emotionalExpressionRubric \<rparr>]
        \<and> is_Ok (POST L (g \<lparr> referenceAbilityCall := Rejected \<rparr>) request)
        \<and> featureResults (report (POST L (g \<lparr> referenceAbilityCall := Rejected \<rparr>) request))
            = (featureResults r)
                [2 := \<lparr> score = Fin (5 / 10), analysis = ''Error analyzing reference ability'',
                         humanVsAI = referenceAbilityRubric \<rparr>]
        \<and> is_Ok (POST L (g \<lparr> ambiguityHandlingCall := Rejected \<rparr>) request)
        \<and> featureResults (report (POST L (g \<lparr> ambiguityHandlingCall := Rejected \<rparr>) request))
            = (featureResults r)
                [3 := \<lparr> score = Fin (5 / 10), analysis = ''Error analyzing ambiguity handling'',
                         humanVsAI = ambiguityHandlingRubric \<rparr>]
        \<and> is_Ok (POST L (g \<lparr> creativeThinkingCall := Rejected \<rparr>) request)
        \<and> featureResults (report (POST L (g \<lparr> creativeThinkingCall := Rejected \<rparr>) request))
            = (featureResults r)
                [4 := \<lparr> score = Fin (5 / 10), analysis = ''Error analyzing creative thinking'',
                         humanVsAI = creativeThinkingRubric \<rparr>])"
proof -
  have j: "analyzeSemanticElasticity Rejected
             = Fulfilled (fallbackResult ''semantic elasticity'' semanticElasticityRubric)"
          "analyzeEmotionalExpression Rejected
             = Fulfilled (fallbackResult ''emotional expression'' emotionalExpressionRubric)"
          "analyzeReferenceAbility Rejected
             = Fulfilled (fallbackResult ''reference ability'' referenceAbilityRubric)"
          "analyzeAmbiguityHandling Rejected
             = Fulfilled (fallbackResult ''ambiguity handling'' ambiguityHandlingRubric)"
          "analyzeCreativeThinking Rejected
             = Fulfilled (fallbackResult ''creative thinking'' creativeThinkingRubric)"
    by (simp_all add: analyzeSemanticElasticity_def analyzeEmotionalExpression_def
          analyzeReferenceAbility_def analyzeAmbiguityHandling_def analyzeCreativeThinking_def
          judgeWithGrok_def)
  have p: "length (featureResults r) = 6
        \<and> is_Ok (POST L (g \<lparr> semanticElasticityCall := Rejected \<rparr>) request)
        \<and> featureResults (report (POST L (g \<lparr> semanticElasticityCall := Rejected \<rparr>) request))
            = (featureResults r)
                [0 := fallbackResult ''semantic elasticity'' semanticElasticityRubric]
        \<and> is_Ok (POST L (g \<lparr> emotionalExpressionCall := Rejected \<rparr>) request)
        \<and> featureResults (report (POST L (g \<lparr> emotionalExpressionCall := Rejected \<rparr>) request))
            = (featureResults r)
                [1 := fallbackResult ''emotional expression'' emotionalExpressionRubric]
        \<and> is_Ok (POST L (g \<lparr> referenceAbilityCall := Rejected \<rparr>) request)
        \<and> featureResults (report (POST L (g \<lparr> referenceAbilityCall := Rejected \<rparr>) request))
            = (featureResults r)
                [2 := fallbackResult ''reference ability'' referenceAbilityRubric]
        \<and> is_Ok (POST L (g \<lparr> ambiguityHandlingCall := Rejected \<rparr>) request)
        \<and> featureResults (report (POST L (g \<lparr> ambiguityHandlingCall := Rejected \<rparr>) request))
            = (featureResults r)
                [3 := fallbackResult ''ambiguity handling'' ambiguityHandlingRubric]
        \<and> is_Ok (POST L (g \<lparr> creativeThinkingCall := Rejected \<rparr>) request)
        \<and> featureResults (report (POST L (g \<lparr> creativeThinkingCall := Rejected \<rparr>) request))
            = (featureResults r)
                [4 := fallbackResult ''creative thinking'' creativeThinkingRubric]"
    if a: "POST L g request = Ok r"
  proof -
    from a obtain t v where t: "requestText request = Some t" "t \<noteq> []"
      and v: "calculateVocabularyComplexity L t = Inr v"
      by (rule POST_Ok_text)
    have r: "r = report (POST L g request)" using a by simp
    show ?thesis
      unfolding r
      by (simp add: POST_report(1,7) [OF t v] j catch_def)
  qed
  show ?thesis
    using j p by (simp add: fallbackResult_def)
qed

theorem C4_failed_judge_falls_back_witness:
  "map score (featureResults (report (POST plainLibraries allCallsAnswered sampleRequest)))
     = [Fin (8 / 10), Fin (1 / 2), Fin (3 / 4), Fin (1 / 2), Fin 1, Fin (7 / 10)]
   \<and> is_Ok (POST plainLibraries (allCallsAnswered \<lparr> referenceAbilityCall := Rejected \<rparr>) sampleRequest)
   \<and> map score (featureResults (report
        (POST plainLibraries (allCallsAnswered \<lparr> referenceAbilityCall := Rejected \<rparr>) sampleRequest)))
     = [Fin (8 / 10), Fin (1 / 2), Fin (1 / 2), Fin (1 / 2), Fin 1, Fin (7 / 10)]
   \<and> analysis (featureResults (report
        (POST plainLibraries (allCallsAnswered \<lparr> referenceAbilityCall := Rejected \<rparr>) sampleRequest)) ! 2)
     = ''Error analyzing reference ability''"
proof -
  let ?p = "POST plainLibraries allCallsAnswered sampleRequest"
  have e: "?p = Ok (report ?p)"
    using sample_overall(1) by (rule is_Ok_report)
  show ?thesis
    using e sample_scores
      C4_failed_judge_falls_back [of plainLibraries allCallsAnswered sampleRequest "report ?p"]
    by (simp add: map_update)
qed

section \<open>The formula of the time-perception score\<close>

lemma foldl_jsadd_Fin: "foldl jsadd (Fin a) (map Fin ds) = Fin (a + sum_list ds)"
  by (induction ds arbitrary: a) (simp_all add: add.assoc)

lemma averageDelay_Fin: "averageDelay (map Fin ds) = Fin (meanDelay ds)"
  by (simp add: averageDelay_def meanDelay_def foldl_jsadd_Fin)

lemma delay_step:
  "(if jsge (Fin m) (Fin 1200) \<and> jsle (Fin m) (Fin 3400) then s + 2 / 10
    else if jslt (Fin m) (Fin 500) then s - 2 / 10 else s) = s + delayAdjustment m"
  by (auto simp: delayAdjustment_def jsge_def jsle_def)

lemma score_formula:
  "timePerceptionScore t (map Fin ds)
     = min (max (5 / 10 + delayAdjustment (meanDelay ds)
                 + (if hasVagueTimeReferences t then 15 / 100 else 0)
                 - (if hasPreciseTimeReferences t then 15 / 100 else 0)) 0) 1"
  by (simp add: timePerceptionScore_def timePerceptionRawScore_def Let_def averageDelay_Fin
        delay_step)

lemma stringIncludes_sublist: "stringIncludes s sub = sublist sub s"
  by (induction s) (simp_all add: sublist_Cons_right)

lemma vague_iff:
  "hasVagueTimeReferences t = (\<exists>e \<in> set timeExpressions. sublist e (toLowerCase t))"
  by (simp add: hasVagueTimeReferences_def list_ex_iff stringIncludes_sublist)

lemma finer_refl: "finer r r" by (simp add: finer_def)

lemma finer_rseq: "finer r1 r1' \<Longrightarrow> finer r2 r2' \<Longrightarrow> finer (rseq r1 r2) (rseq r1' r2')"
  by (fastforce simp: finer_def rseq_def)

lemma finer_boundary_left: "finer r r' \<Longrightarrow> finer (rseq wordBoundary r) r'"
  by (auto simp: finer_def rseq_def wordBoundary_def Let_def split: if_splits)

lemma finer_boundary_right: "finer (rseq r wordBoundary) r"
  by (auto simp: finer_def rseq_def wordBoundary_def Let_def split: if_splits)

lemma finer_nonempty:
  assumes "finer r r'" "r pos \<noteq> []"
  shows "r' pos \<noteq> []"
proof
  assume "r' pos = []"
  moreover have "set (r pos) \<subseteq> set (r' pos)"
    using assms(1) unfolding finer_def by blast
  ultimately show False using assms(2) by simp
qed

lemma finer_search: "finer r r' \<Longrightarrow> regexSearch r prev s \<Longrightarrow> regexSearch r' prev s"
  by (induction s arbitrary: prev) (auto dest: finer_nonempty)

lemma date_finer: "finer preciseDatePattern specDatePattern"
  unfolding preciseDatePattern_def specDatePattern_def
  by (intro finer_boundary_left finer_rseq finer_refl finer_boundary_right)

lemma time_finer: "finer preciseTimePattern specTimePattern"
  unfolding preciseTimePattern_def specTimePattern_def
  by (intro finer_boundary_left finer_rseq finer_refl finer_boundary_right)

lemma precise_implies_spec:
  "hasPreciseTimeReferences t \<Longrightarrow> regexTest specDatePattern t \<or> regexTest specTimePattern t"
  using finer_search [OF date_finer] finer_search [OF time_finer]
  by (auto simp: hasPreciseTimeReferences_def regexTest_def)

text \<open>
  Claim C3, as stated, subtracts 0.15 whenever the text matches
  \<open>\d{1,2}[/.-]\d{1,2}[/.-]\d{2,4}\<close> or \<open>\d{1,2}:\d{2}\<close>. The patterns of the code begin
  and end with \<open>\b\<close>. The date \<open>2024-05-12\<close> matches the first pattern of the claim
  (at \<open>24-05-12\<close>) and neither pattern of the code: the claim gives 0.15, the code 0.3.
\<close>

theorem C3_counterexample:
  "regexTest specDatePattern ''2024-05-12''
   \<and> specTimePerceptionScore ''2024-05-12'' [] = 15 / 100
   \<and> timePerceptionScore ''2024-05-12'' (map Fin []) = 30 / 100"
proof -
  have "regexTest specDatePattern ''2024-05-12''" by code_simp
  moreover have "specTimePerceptionScore ''2024-05-12'' [] = 15 / 100" by code_simp
  moreover have "timePerceptionScore ''2024-05-12'' [] = 30 / 100" by code_simp
  ultimately show ?thesis by simp
qed

text \<open>
  Claim C3, amended: the score is 0.5, plus 0.2 if the mean of the delays (0 for no
  delays) lies within [1200, 3400], minus 0.2 if it is below 500, plus 0.15 if the text
  in lower case contains one of the vague phrases, minus 0.15 if it matches one of the
  two precise patterns between word boundaries, clamped to [0,1]. A match between word
  boundaries is a match of the pattern the claim gives, and where the two agree the
  score is the one of the claim. The delays [2000, 2200, 2100] with a text that
  contains "last week" and no precise reference give 0.85; the delays [100, 120] with
  "Meeting at 14:30 on 12/05/2024" give 0.15.
\<close>

theorem C3_time_perception_score:
  "timePerceptionScore t (map Fin ds)
     = min (max (5 / 10 + delayAdjustment (meanDelay ds)
                 + (if hasVagueTimeReferences t then 15 / 100 else 0)
                 - (if hasPreciseTimeReferences t then 15 / 100 else 0)) 0) 1
   \<and> hasVagueTimeReferences t = (\<exists>e \<in> set timeExpressions. sublist e (toLowerCase t))
   \<and> (hasPreciseTimeReferences t \<longrightarrow>
        regexTest specDatePattern t \<or> regexTest specTimePattern t)
   \<and> (hasPreciseTimeReferences t = (regexTest specDatePattern t \<or> regexTest specTimePattern t)
        \<longrightarrow> timePerceptionScore t (map Fin ds) = specTimePerceptionScore t ds)
   \<and> (sublist ''last week'' (toLowerCase t) \<and> \<not> hasPreciseTimeReferences t \<longrightarrow>
        timePerceptionScore t [Fin 2000, Fin 2200, Fin 2100] = 85 / 100)
   \<and> timePerceptionScore ''Meeting at 14:30 on 12/05/2024'' [Fin 100, Fin 120] = 15 / 100"
proof -
  have v: "hasVagueTimeReferences t" if "sublist ''last week'' (toLowerCase t)"
    using that by (auto simp: vague_iff timeExpressions_def)
  have m: "delayAdjustment (meanDelay [2000, 2200, 2100]) = 2 / 10"
    by (simp add: delayAdjustment_def meanDelay_def)
  have f: "timePerceptionScore t [Fin 2000, Fin 2200, Fin 2100]
             = min (max (5 / 10 + 2 / 10
                 + (if hasVagueTimeReferences t then 15 / 100 else 0)
                 - (if hasPreciseTimeReferences t then 15 / 100 else 0)) 0) 1"
    using score_formula [of t "[2000, 2200, 2100]"] by (simp add: m)
  have a: "sublist ''last week'' (toLowerCase t) \<and> \<not> hasPreciseTimeReferences t \<longrightarrow>
        timePerceptionScore t [Fin 2000, Fin 2200, Fin 2100] = 85 / 100"
    using v by (auto simp: f)
  have b: "timePerceptionScore ''Meeting at 14:30 on 12/05/2024'' [Fin 100, Fin 120] = 15 / 100"
    by code_simp
  have s: "hasPreciseTimeReferences t = (regexTest specDatePattern t \<or> regexTest specTimePattern t)
        \<longrightarrow> timePerceptionScore t (map Fin ds) = specTimePerceptionScore t ds"
    by (simp add: score_formula specTimePerceptionScore_def)
  show ?thesis
    using score_formula [of t ds] vague_iff [of t] precise_implies_spec [of t] a b s
    by blast
qed

theorem C3_time_perception_score_witness:
  "timePerceptionScore ''I saw them Last Week, around noon'' [Fin 2000, Fin 2200, Fin 2100]
     = 85 / 100
   \<and> specTimePerceptionScore ''I saw them Last Week, around noon'' [2000, 2200, 2100]
     = 85 / 100
   \<and> timePerceptionScore ''Meeting at 14:30 on 12/05/2024'' [Fin 100, Fin 120] = 15 / 100
   \<and> specTimePerceptionScore ''Meeting at 14:30 on 12/05/2024'' [100, 120] = 15 / 100"
proof -
  let ?t = "''I saw them Last Week, around noon''"
  let ?u = "''Meeting at 14:30 on 12/05/2024''"
  have l: "sublist ''last week'' (toLowerCase ?t)"
    unfolding stringIncludes_sublist [symmetric] by code_simp
  have n: "\<not> hasPreciseTimeReferences ?t" by code_simp
  have n': "\<not> (regexTest specDatePattern ?t \<or> regexTest specTimePattern ?t)" by code_simp
  have p: "hasPreciseTimeReferences ?u" by code_simp
  have p': "regexTest specDatePattern ?u \<or> regexTest specTimePattern ?u" by code_simp
  have t: "timePerceptionScore ?t [Fin 2000, Fin 2200, Fin 2100] = 85 / 100"
          "timePerceptionScore ?t (map Fin [2000, 2200, 2100])
             = specTimePerceptionScore ?t [2000, 2200, 2100]"
    using l n n' C3_time_perception_score [of ?t "[2000, 2200, 2100]"] by blast+
  have u: "timePerceptionScore ?u [Fin 100, Fin 120] = 15 / 100"
          "timePerceptionScore ?u (map Fin [100, 120]) = specTimePerceptionScore ?u [100, 120]"
    using p p' C3_time_perception_score [of ?u "[100, 120]"] by blast+
  show ?thesis
    using t u by simp
qed


end
